theory Spec2Isabelle
  imports Complex_Main "HOL-Library.Word"
begin

section \<open>Remote iterator creator of the gossip package\<close>

text \<open>
  A shallow embedding of \<^verbatim>\<open>gossip/remote_iterator_creator.go\<close>. Go's multiple return
  values \<^verbatim>\<open>(value, err)\<close> are sums (\<open>Inl\<close> the error), the network, the clock and
  every open response body live in an explicit \<open>world\<close> that each function takes and
  returns, and the collaborators the file calls but does not define (the HTTP transport,
  the protobuf and JSON codecs, the configuration) are the fields of an environment
  record \<open>env\<close>. Calls of \<^verbatim>\<open>log.Printf\<close> only print and are left out.
\<close>

subsection \<open>Data\<close>

type_synonym bytes = "8 word list"

datatype error =
    ErrorString string  \<comment> \<open>\<^verbatim>\<open>errors.New(s)\<close> and \<^verbatim>\<open>fmt.Errorf\<close>: the message\<close>
  | External string  \<comment> \<open>an error value handed back by a collaborator\<close>
  | NilDereference  \<comment> \<open>\<^verbatim>\<open>err.Error()\<close> on a nil error\<close>
  | InvalidBody  \<comment> \<open>a read of a body that was never opened\<close>

text \<open>\<^verbatim>\<open>type NodesList struct\<close>\<close>

record NodesList =
  ID :: "64 word"
  IP :: string
  Hostname :: string
  BindAddress :: string
  Alive :: bool

text \<open>\<^verbatim>\<open>type RemoteIteratorCreator struct\<close>; the \<^verbatim>\<open>Store\<close> pointer is never read.\<close>

record RemoteIteratorCreator =
  ShardID :: "64 word"
  NodeID :: "64 word"

text \<open>An \<^verbatim>\<open>*http.Request\<close> as built by \<^verbatim>\<open>http.NewRequest(method, url, body)\<close>.\<close>

record request =
  Method :: string
  URL :: string
  Payload :: "bytes option"

text \<open>
  An open response body: the bytes not yet read from it, and the error its reader
  reports once they are read (\<open>None\<close> is a clean end of stream).
\<close>

record body =
  unread :: bytes
  read_err :: "error option"

text \<open>An \<^verbatim>\<open>*http.Response\<close>: only \<^verbatim>\<open>resp.Body\<close> is used, a handle into the store of bodies.\<close>

record response =
  Body :: nat

text \<open>The protobuf messages, with the fields the file reads and writes.\<close>

record ReadShardCommand =
  rsc_ShardID :: "64 word"
  rsc_IteratorOptions :: bytes

record ReadShardCommandResponse =
  rscr_Type :: int

record FieldDimensionsCommand =
  fdc_ShardID :: "64 word"
  fdc_Sources :: bytes

record FieldDimensionsCommandResponse =
  fdcr_Fields :: "string \<rightharpoonup> int"
  fdcr_Dimensions :: "string list"
  fdcr_Error :: string

record ExpandSourcesCommand =
  esc_ShardID :: "64 word"
  esc_Sources :: bytes

record ExpandSourcesCommandResponse =
  escr_Sources :: bytes
  escr_Error :: string

text \<open>
  The four iterator structs share their fields: the point decoder (bound to a body),
  the \<^verbatim>\<open>Closed\<close> flag and the \<^verbatim>\<open>CloseReader\<close> callback, which closes the body it captured.
\<close>

record remote_iterator =
  PointDecoder :: nat
  Closed :: bool
  CloseReader :: nat

datatype iterator =
    RemoteFloatIterator remote_iterator
  | RemoteIntegerIterator remote_iterator
  | RemoteStringIterator remote_iterator
  | RemoteBooleanIterator remote_iterator

primrec iterator_fields :: "iterator \<Rightarrow> remote_iterator" where
  "iterator_fields (RemoteFloatIterator it) = it"
| "iterator_fields (RemoteIntegerIterator it) = it"
| "iterator_fields (RemoteStringIterator it) = it"
| "iterator_fields (RemoteBooleanIterator it) = it"

subsection \<open>Collaborators and the world\<close>

text \<open>
  What the file imports. \<open>transport n req\<close> is the outcome of the \<open>n\<close>-th call of
  \<^verbatim>\<open>client.Do\<close> (counted from 0) on \<open>req\<close>: a transport error, or the bytes of the
  response body with the error that ends them. \<open>url_error\<close> is the error
  \<^verbatim>\<open>http.NewRequest\<close> reports for a URL, if any. \<open>json_decode\<close> is
  \<^verbatim>\<open>json.NewDecoder(r).Decode(&nodeList)\<close> on a stream and its terminal error: the outcome,
  and the number of bytes the decoder took from the stream. The four \<open>kind\<close> constants
  are the generated enum values \<^verbatim>\<open>ReadShardCommandResponse_FLOAT\<close> ... \<^verbatim>\<open>_BOOLEAN\<close>.
\<close>

record ('opt, 'src) env =
  CFLUX_ENDPOINT :: string
  CLUSTER :: string
  QueryEscape :: "string \<Rightarrow> string"
  url_error :: "string \<Rightarrow> error option"
  transport :: "nat \<Rightarrow> request \<Rightarrow> error + bytes \<times> error option"
  json_decode :: "bytes \<Rightarrow> error option \<Rightarrow> (error + NodesList list) \<times> nat"
  opt_MarshalBinary :: "'opt \<Rightarrow> error + bytes"
  sources_MarshalBinary :: "'src \<Rightarrow> error + bytes"
  sources_UnmarshalBinary :: "bytes \<Rightarrow> error + 'src"
  marshal_ReadShardCommand :: "ReadShardCommand \<Rightarrow> error + bytes"
  marshal_FieldDimensionsCommand :: "FieldDimensionsCommand \<Rightarrow> error + bytes"
  marshal_ExpandSourcesCommand :: "ExpandSourcesCommand \<Rightarrow> error + bytes"
  unmarshal_ReadShardCommandResponse :: "bytes \<Rightarrow> error + ReadShardCommandResponse"
  unmarshal_FieldDimensionsCommandResponse ::
    "bytes \<Rightarrow> error + FieldDimensionsCommandResponse"
  unmarshal_ExpandSourcesCommandResponse :: "bytes \<Rightarrow> error + ExpandSourcesCommandResponse"
  kind_FLOAT :: int
  kind_INTEGER :: int
  kind_STRING :: int
  kind_BOOLEAN :: int

text \<open>
  The effects: every request handed to \<^verbatim>\<open>client.Do\<close>, every duration passed to
  \<^verbatim>\<open>time.Sleep\<close> (in nanoseconds), every response body opened (its handle is its index),
  and every handle passed to \<^verbatim>\<open>Body.Close\<close>, each in order of occurrence.
\<close>

record world =
  requests :: "request list"
  sleeps :: "int list"
  bodies :: "body list"
  closes :: "nat list"

definition NewRequest ::
  "('opt, 'src) env \<Rightarrow> string \<Rightarrow> string \<Rightarrow> bytes option \<Rightarrow> error + request" where
  "NewRequest env m u b =
     (case url_error env u of
        Some e \<Rightarrow> Inl e
      | None \<Rightarrow> Inr \<lparr>Method = m, URL = u, Payload = b\<rparr>)"

definition client_Do ::
  "('opt, 'src) env \<Rightarrow> request \<Rightarrow> world \<Rightarrow> (error + response) \<times> world" where
  "client_Do env req w =
     (let w1 = w\<lparr>requests := requests w @ [req]\<rparr> in
      case transport env (length (requests w)) req of
        Inl e \<Rightarrow> (Inl e, w1)
      | Inr (bs, re) \<Rightarrow>
          (Inr \<lparr>Body = length (bodies w1)\<rparr>,
           w1\<lparr>bodies := bodies w1 @ [\<lparr>unread = bs, read_err = re\<rparr>]\<rparr>))"

definition Sleep :: "int \<Rightarrow> world \<Rightarrow> world" where
  "Sleep d w = w\<lparr>sleeps := sleeps w @ [d]\<rparr>"

definition Close :: "nat \<Rightarrow> world \<Rightarrow> world" where
  "Close b w = w\<lparr>closes := closes w @ [b]\<rparr>"

text \<open>\<^verbatim>\<open>ioutil.ReadAll\<close>: everything up to the end of the stream, and the error met there.\<close>

definition ReadAll :: "nat \<Rightarrow> world \<Rightarrow> (bytes \<times> error option) \<times> world" where
  "ReadAll b w =
     (if b < length (bodies w) then
        (let bd = bodies w ! b in
         ((unread bd, read_err bd), w\<lparr>bodies := (bodies w)[b := bd\<lparr>unread := []\<rparr>]\<rparr>))
      else (([], Some InvalidBody), w))"

definition Decode ::
  "('opt, 'src) env \<Rightarrow> nat \<Rightarrow> world \<Rightarrow> (error + NodesList list) \<times> world" where
  "Decode env b w =
     (if b < length (bodies w) then
        (let bd = bodies w ! b;
             (r, n) = json_decode env (unread bd) (read_err bd) in
         (r, w\<lparr>bodies := (bodies w)[b := bd\<lparr>unread := drop n (unread bd)\<rparr>]\<rparr>))
      else (Inl InvalidBody, w))"

subsection \<open>ExpBackoffRequest\<close>

text \<open>
  \<^verbatim>\<open>backoff := (math.Pow(2, float64(attempt)) - 1) / 2\<close>: for the attempts the loop
  reaches the float64 arithmetic is exact, so the value is the real number.
  \<^verbatim>\<open>time.Duration(backoff)\<close> converts the float to an int64, dropping the fraction;
  \<^verbatim>\<open>time.Second\<close> is \<open>10^9\<close> nanoseconds.
\<close>

definition backoff :: "nat \<Rightarrow> real" where
  "backoff attempt = (2 ^ attempt - 1) / 2"

definition Duration :: "real \<Rightarrow> int" where
  "Duration x = (if 0 \<le> x then \<lfloor>x\<rfloor> else \<lceil>x\<rceil>)"

definition Second :: int where
  "Second = 1000000000"

function backoff_loop ::
  "('opt, 'src) env \<Rightarrow> (unit \<Rightarrow> error + request) \<Rightarrow> nat \<Rightarrow> error option \<Rightarrow> world
     \<Rightarrow> (error + response) \<times> world" where
  "backoff_loop env f attempt err w =
     (if attempt < 6 then
        (case f () of
           Inl e \<Rightarrow> (Inl e, w)
         | Inr req \<Rightarrow>
             (case client_Do env req w of
                (Inr resp, w1) \<Rightarrow> (Inr resp, w1)
              | (Inl e, w1) \<Rightarrow>
                  backoff_loop env f (attempt + 1) (Some e)
                    (Sleep (Duration (backoff attempt) * Second) w1)))
      else (case err of
              Some e \<Rightarrow> (Inl e, w)
            | None \<Rightarrow> (Inl NilDereference, w)))"
  by pat_completeness auto
termination
  by (relation "measure (\<lambda>(env, f, attempt, err, w). 6 - attempt)") auto

declare backoff_loop.simps [simp del]

definition ExpBackoffRequest ::
  "('opt, 'src) env \<Rightarrow> (unit \<Rightarrow> error + request) \<Rightarrow> world \<Rightarrow> (error + response) \<times> world"
  where
  "ExpBackoffRequest env f w = backoff_loop env f 1 None w"

subsection \<open>AliveNodesMap\<close>

text \<open>The loop \<^verbatim>\<open>for _, node := range nodeList { nodeMap[node.ID] = node }\<close>.\<close>

primrec assign_nodes ::
  "NodesList list \<Rightarrow> (64 word \<rightharpoonup> NodesList) \<Rightarrow> (64 word \<rightharpoonup> NodesList)" where
  "assign_nodes [] nodeMap = nodeMap"
| "assign_nodes (node # rest) nodeMap = assign_nodes rest (nodeMap(ID node \<mapsto> node))"

definition nodes_request :: "('opt, 'src) env \<Rightarrow> unit \<Rightarrow> error + request" where
  "nodes_request env =
     (\<lambda>_. NewRequest env ''GET''
        (CFLUX_ENDPOINT env @ ''/nodes/'' @ QueryEscape env (CLUSTER env)) None)"

definition AliveNodesMap ::
  "('opt, 'src) env \<Rightarrow> world \<Rightarrow> (error + (64 word \<rightharpoonup> NodesList)) \<times> world" where
  "AliveNodesMap env w =
     (case ExpBackoffRequest env (nodes_request env) w of
        (Inl e, w1) \<Rightarrow> (Inl e, w1)
      | (Inr resp, w1) \<Rightarrow>
          (case Decode env (Body resp) w1 of
             (Inl e, w2) \<Rightarrow> (Inl e, w2)
           | (Inr nodeList, w2) \<Rightarrow> (Inr (assign_nodes nodeList Map.empty), w2)))"

subsection \<open>The three operations of the creator\<close>

text \<open>
  Indexing a Go map with a key it does not hold, or indexing the nil map, gives the
  zero value of the element type.
\<close>

definition zero_node :: NodesList where
  "zero_node = \<lparr>ID = 0, IP = [], Hostname = [], BindAddress = [], Alive = False\<rparr>"

definition index_nodes :: "(64 word \<rightharpoonup> NodesList) \<Rightarrow> 64 word \<Rightarrow> NodesList" where
  "index_nodes nodeMap k = (case nodeMap k of Some node \<Rightarrow> node | None \<Rightarrow> zero_node)"

text \<open>The verb \<^verbatim>\<open>%d\<close> of \<^verbatim>\<open>fmt.Errorf\<close>.\<close>

fun nat_digits :: "nat \<Rightarrow> string" where
  "nat_digits n =
     (if n < 10 then [''0123456789'' ! n]
      else nat_digits (n div 10) @ [''0123456789'' ! (n mod 10)])"

declare nat_digits.simps [simp del]

definition format_d :: "int \<Rightarrow> string" where
  "format_d i = (if i < 0 then ''-'' @ nat_digits (nat (- i)) else nat_digits (nat i))"

text \<open>The request builders, the closures \<^verbatim>\<open>f\<close> of the three operations.\<close>

definition node_request ::
  "('opt, 'src) env \<Rightarrow> (64 word \<rightharpoonup> NodesList) \<Rightarrow> RemoteIteratorCreator \<Rightarrow> string \<Rightarrow> bytes
     \<Rightarrow> unit \<Rightarrow> error + request" where
  "node_request env aliveNodes ric path data =
     (\<lambda>_. NewRequest env ''POST''
        (''http://'' @ BindAddress (index_nodes aliveNodes (NodeID ric)) @ path) (Some data))"

text \<open>
  \<^verbatim>\<open>CreateIterator\<close>. The error of \<^verbatim>\<open>AliveNodesMap\<close> is assigned to \<^verbatim>\<open>err\<close> and
  overwritten by the next statement before anything reads it; on that error the map is nil.
\<close>

definition CreateIterator ::
  "('opt, 'src) env \<Rightarrow> RemoteIteratorCreator \<Rightarrow> 'opt \<Rightarrow> world \<Rightarrow> (error + iterator) \<times> world"
  where
  "CreateIterator env ric opt w =
     (case AliveNodesMap env w of (r, w1) \<Rightarrow>
        (let aliveNodes = (case r of Inr nodeMap \<Rightarrow> nodeMap | Inl _ \<Rightarrow> Map.empty) in
         case opt_MarshalBinary env opt of
           Inl e \<Rightarrow> (Inl e, w1)
         | Inr optBinary \<Rightarrow>
             (case marshal_ReadShardCommand env
                     \<lparr>rsc_ShardID = ShardID ric, rsc_IteratorOptions = optBinary\<rparr> of
                Inl e \<Rightarrow> (Inl e, w1)
              | Inr data \<Rightarrow>
                  (case ExpBackoffRequest env
                          (node_request env aliveNodes ric ''/read'' data) w1 of
                     (Inl e, w2) \<Rightarrow> (Inl e, w2)
                   | (Inr resp, w2) \<Rightarrow>
                       (case ReadAll (Body resp) w2 of
                          ((respBody, Some e), w3) \<Rightarrow> (Inl e, w3)
                        | ((respBody, None), w3) \<Rightarrow>
                            (case unmarshal_ReadShardCommandResponse env respBody of
                               Inl e \<Rightarrow> (Inl e, w3)
                             | Inr respMessage \<Rightarrow>
                                 (let it = \<lparr>PointDecoder = Body resp, Closed = False,
                                            CloseReader = Body resp\<rparr>;
                                      iterType = rscr_Type respMessage in
                                  if iterType = kind_FLOAT env then
                                    (Inr (RemoteFloatIterator it), w3)
                                  else if iterType = kind_INTEGER env then
                                    (Inr (RemoteIntegerIterator it), w3)
                                  else if iterType = kind_STRING env then
                                    (Inr (RemoteStringIterator it), w3)
                                  else if iterType = kind_BOOLEAN env then
                                    (Inr (RemoteBooleanIterator it), w3)
                                  else
                                    (Inl (ErrorString
                                       (''Unsupported iterator type: '' @ format_d iterType)),
                                     w3))))))))"

text \<open>
  \<^verbatim>\<open>FieldDimensions\<close> returns \<^verbatim>\<open>(fields, dimensions, err)\<close>; a nil map or a nil error is
  \<open>None\<close>. \<^verbatim>\<open>influxql.DataType(value)\<close> widens the int32 of the message, and a
  \<^verbatim>\<open>map[string]struct{}\<close> is the set of its keys. \<^verbatim>\<open>defer resp.Body.Close()\<close> is registered
  right after \<^verbatim>\<open>ReadAll\<close>, so the close runs after whatever the rest returns.
\<close>

definition DataType :: "int \<Rightarrow> int" where
  "DataType v = v"

type_synonym field_dimensions =
  "(string \<rightharpoonup> int) option \<times> string set option \<times> error option"

definition FieldDimensions ::
  "('opt, 'src) env \<Rightarrow> RemoteIteratorCreator \<Rightarrow> 'src \<Rightarrow> world \<Rightarrow> field_dimensions \<times> world"
  where
  "FieldDimensions env ric sources w =
     (case sources_MarshalBinary env sources of
        Inl e \<Rightarrow> ((None, None, Some e), w)
      | Inr sourceBinary \<Rightarrow>
          (case marshal_FieldDimensionsCommand env
                  \<lparr>fdc_ShardID = ShardID ric, fdc_Sources = sourceBinary\<rparr> of
             Inl e \<Rightarrow> ((None, None, Some e), w)
           | Inr fdcBinary \<Rightarrow>
               (case AliveNodesMap env w of
                  (Inl e, w1) \<Rightarrow> ((None, None, Some e), w1)
                | (Inr aliveNodes, w1) \<Rightarrow>
                    (case ExpBackoffRequest env
                            (node_request env aliveNodes ric ''/fielddimensions'' fdcBinary)
                            w1 of
                       (Inl e, w2) \<Rightarrow> ((None, None, Some e), w2)
                     | (Inr resp, w2) \<Rightarrow>
                         (case ReadAll (Body resp) w2 of ((respBody, rerr), w3) \<Rightarrow>
                            (let result =
                               (case rerr of
                                  Some e \<Rightarrow> (None, None, Some e)
                                | None \<Rightarrow>
                                    (case unmarshal_FieldDimensionsCommandResponse env
                                            respBody of
                                       Inl e \<Rightarrow> (None, None, Some e)
                                     | Inr respMessage \<Rightarrow>
                                         if fdcr_Error respMessage \<noteq> [] then
                                           (None, None,
                                            Some (ErrorString (fdcr_Error respMessage)))
                                         else
                                           (Some (\<lambda>key. map_option DataType
                                                     (fdcr_Fields respMessage key)),
                                            Some (set (fdcr_Dimensions respMessage)),
                                            None)))
                             in (result, Close (Body resp) w3)))))))"

definition ExpandSources ::
  "('opt, 'src) env \<Rightarrow> RemoteIteratorCreator \<Rightarrow> 'src \<Rightarrow> world \<Rightarrow> (error + 'src) \<times> world"
  where
  "ExpandSources env ric sources w =
     (case sources_MarshalBinary env sources of
        Inl e \<Rightarrow> (Inl e, w)
      | Inr sourceBinary \<Rightarrow>
          (case marshal_ExpandSourcesCommand env
                  \<lparr>esc_ShardID = ShardID ric, esc_Sources = sourceBinary\<rparr> of
             Inl e \<Rightarrow> (Inl e, w)
           | Inr cmdBinary \<Rightarrow>
               (case AliveNodesMap env w of
                  (Inl e, w1) \<Rightarrow> (Inl e, w1)
                | (Inr aliveNodes, w1) \<Rightarrow>
                    (case ExpBackoffRequest env
                            (node_request env aliveNodes ric ''/expandsources'' cmdBinary)
                            w1 of
                       (Inl e, w2) \<Rightarrow> (Inl e, w2)
                     | (Inr resp, w2) \<Rightarrow>
                         (case ReadAll (Body resp) w2 of ((respBody, rerr), w3) \<Rightarrow>
                            (let result =
                               (case rerr of
                                  Some e \<Rightarrow> Inl e
                                | None \<Rightarrow>
                                    (case unmarshal_ExpandSourcesCommandResponse env
                                            respBody of
                                       Inl e \<Rightarrow> Inl e
                                     | Inr respMessage \<Rightarrow>
                                         if escr_Error respMessage \<noteq> [] then
                                           Inl (ErrorString (escr_Error respMessage))
                                         else
                                           (case sources_UnmarshalBinary env
                                                   (escr_Sources respMessage) of
                                              Inl e \<Rightarrow> Inl e
                                            | Inr respSources \<Rightarrow> Inr respSources)))
                             in (result, Close (Body resp) w3)))))))"

subsection \<open>Concrete runs\<close>

text \<open>
  A small cluster to run the operations on: a control plane at \<^verbatim>\<open>http://cflux:8080\<close>
  serving the cluster \<^verbatim>\<open>prod\<close>, whose directory request always answers and decodes to
  \<open>nodes\<close>, and nodes that answer every RPC with the body \<open>reply\<close>. As Go's default
  transport does, this one refuses a URL without a host. The codecs are the simplest
  ones that keep the payloads apart.
\<close>

definition world0 :: world where
  "world0 = \<lparr>requests = [], sleeps = [], bodies = [], closes = []\<rparr>"

definition cluster :: "NodesList list \<Rightarrow> bytes \<times> error option \<Rightarrow> (bytes, bytes) env" where
  "cluster nodes reply =
     \<lparr>CFLUX_ENDPOINT = ''http://cflux:8080'', CLUSTER = ''prod'',
      QueryEscape = (\<lambda>s. s), url_error = (\<lambda>u. None),
      transport = (\<lambda>n req.
        if Method req = ''GET'' then Inr ([], None)
        else if take 8 (URL req) = ''http:///'' then
          Inl (External ''http: no Host in request URL'')
        else Inr reply),
      json_decode = (\<lambda>bs e. (Inr nodes, length bs)),
      opt_MarshalBinary = Inr, sources_MarshalBinary = Inr, sources_UnmarshalBinary = Inr,
      marshal_ReadShardCommand = (\<lambda>c. Inr (rsc_IteratorOptions c)),
      marshal_FieldDimensionsCommand = (\<lambda>c. Inr (fdc_Sources c)),
      marshal_ExpandSourcesCommand = (\<lambda>c. Inr (esc_Sources c)),
      unmarshal_ReadShardCommandResponse = (\<lambda>bs.
        case bs of
          [] \<Rightarrow> Inl (External ''unexpected EOF'')
        | b # _ \<Rightarrow> Inr \<lparr>rscr_Type = uint b\<rparr>),
      unmarshal_FieldDimensionsCommandResponse = (\<lambda>bs.
        case bs of
          [] \<Rightarrow> Inl (External ''unexpected EOF'')
        | b # _ \<Rightarrow>
            Inr \<lparr>fdcr_Fields = [''value'' \<mapsto> 1], fdcr_Dimensions = [''host'', ''host''],
                 fdcr_Error = (if b = 0 then [] else ''shard not found'')\<rparr>),
      unmarshal_ExpandSourcesCommandResponse = (\<lambda>bs.
        case bs of
          [] \<Rightarrow> Inl (External ''unexpected EOF'')
        | b # rest \<Rightarrow>
            Inr \<lparr>escr_Sources = rest,
                 escr_Error = (if b = 0 then [] else ''shard not found'')\<rparr>),
      kind_FLOAT = 0, kind_INTEGER = 1, kind_STRING = 2, kind_BOOLEAN = 3\<rparr>"

definition node1 :: NodesList where
  "node1 = \<lparr>ID = 1, IP = ''10.0.0.1'', Hostname = ''n1'', BindAddress = ''10.0.0.1:9000'',
            Alive = True\<rparr>"

definition node2 :: NodesList where
  "node2 = \<lparr>ID = 2, IP = ''10.0.0.2'', Hostname = ''n2'', BindAddress = ''10.0.0.2:9000'',
            Alive = False\<rparr>"

definition node1_moved :: NodesList where
  "node1_moved = \<lparr>ID = 1, IP = ''10.0.0.9'', Hostname = ''n9'',
                  BindAddress = ''10.0.0.9:9000'', Alive = True\<rparr>"

definition shard5_on :: "64 word \<Rightarrow> RemoteIteratorCreator" where
  "shard5_on node = \<lparr>ShardID = 5, NodeID = node\<rparr>"

text \<open>The directory request of this cluster, and the world after one clean lookup.\<close>

definition nodes_get :: request where
  "nodes_get = \<lparr>Method = ''GET'', URL = ''http://cflux:8080/nodes/prod'', Payload = None\<rparr>"

definition looked_up :: world where
  "looked_up = \<lparr>requests = [nodes_get], sleeps = [],
                 bodies = [\<lparr>unread = [], read_err = None\<rparr>], closes = []\<rparr>"

definition post :: "string \<Rightarrow> request" where
  "post url = \<lparr>Method = ''POST'', URL = url, Payload = Some []\<rparr>"

text \<open>The same cluster with nothing reachable: every call fails, and says which it was.\<close>

definition unreachable :: "(bytes, bytes) env" where
  "unreachable = (cluster [node1] ([], None))
     \<lparr>transport := (\<lambda>n req. Inl (External (''connection refused, call '' @ nat_digits (Suc n))))\<rparr>"

text \<open>The same cluster with only the control plane down.\<close>

definition directory_down :: "(bytes, bytes) env" where
  "directory_down = (cluster [node1] ([1, 10, 20, 30], None))
     \<lparr>transport := (\<lambda>n req.
        if Method req = ''GET'' then Inl (External ''connection refused'')
        else if take 8 (URL req) = ''http:///'' then
          Inl (External ''http: no Host in request URL'')
        else Inr ([1, 10, 20, 30], None))\<rparr>"

subsection \<open>What one run of the retry loop leaves behind\<close>

text \<open>
  The frame of \<^verbatim>\<open>ExpBackoffRequest\<close> from a world \<open>w\<close>: it closes nothing, the requests
  it sends are copies of the one its builder makes, and it opens a body exactly when it
  returns a response: the new body, holding what the transport answered to the last
  request sent.
\<close>

definition loop_frame ::
  "('opt, 'src) env \<Rightarrow> (unit \<Rightarrow> error + request) \<Rightarrow> world \<Rightarrow> (error + response) \<times> world
     \<Rightarrow> bool" where
  "loop_frame env f w out =
     (closes (snd out) = closes w \<and>
      (\<exists>k. requests (snd out) = requests w @ replicate k (projr (f ())) \<and>
           (isl (f ()) \<longrightarrow> k = 0) \<and> (isl (fst out) \<or> 0 < k)) \<and>
      (case fst out of
         Inl e \<Rightarrow> bodies (snd out) = bodies w
       | Inr resp \<Rightarrow>
           Body resp = length (bodies w) \<and>
           (\<exists>bs re.
              transport env (length (requests (snd out)) - 1) (projr (f ())) = Inr (bs, re) \<and>
              bodies (snd out) = bodies w @ [\<lparr>unread = bs, read_err = re\<rparr>])))"

lemmas run_defs =
  world0_def cluster_def node1_def node2_def node1_moved_def shard5_on_def unreachable_def
  nodes_get_def looked_up_def post_def
  directory_down_def NewRequest_def client_Do_def Sleep_def Close_def ReadAll_def Decode_def
  backoff_def Duration_def Second_def ExpBackoffRequest_def backoff_loop.simps
  nodes_request_def AliveNodesMap_def zero_node_def index_nodes_def nat_digits.simps
  format_d_def node_request_def DataType_def

section \<open>Frame lemmas\<close>

lemma Sleep_fields [simp]:
  "requests (Sleep d w) = requests w" "bodies (Sleep d w) = bodies w"
  "closes (Sleep d w) = closes w" "sleeps (Sleep d w) = sleeps w @ [d]"
  by (simp_all add: Sleep_def)

lemma Close_fields [simp]:
  "requests (Close b w) = requests w" "bodies (Close b w) = bodies w"
  "closes (Close b w) = closes w @ [b]" "sleeps (Close b w) = sleeps w"
  by (simp_all add: Close_def)

lemma client_Do_closes: "client_Do env req w = (r, w1) \<Longrightarrow> closes w1 = closes w"
  by (auto simp: client_Do_def Let_def split: sum.splits prod.splits)

lemma client_Do_requests: "client_Do env req w = (r, w1) \<Longrightarrow> requests w1 = requests w @ [req]"
  by (auto simp: client_Do_def Let_def split: sum.splits prod.splits)

lemma client_Do_Inl: "client_Do env req w = (Inl e, w1) \<Longrightarrow> bodies w1 = bodies w"
  by (auto simp: client_Do_def Let_def split: sum.splits prod.splits)

lemma client_Do_Inr:
  "client_Do env req w = (Inr resp, w1) \<Longrightarrow>
     Body resp = length (bodies w) \<and>
     (\<exists>bs re. transport env (length (requests w)) req = Inr (bs, re) \<and>
        bodies w1 = bodies w @ [\<lparr>unread = bs, read_err = re\<rparr>])"
  by (auto simp: client_Do_def Let_def split: sum.splits prod.splits)

lemma loop_frame_stop: "isl (fst out) \<Longrightarrow> snd out = w \<Longrightarrow> loop_frame env f w out"
  unfolding loop_frame_def by (cases "fst out") auto

lemma loop_frame_success:
  assumes "f () = Inr req" "client_Do env req w = (Inr resp, w1)"
  shows "loop_frame env f w (Inr resp, w1)"
  unfolding loop_frame_def using assms client_Do_Inr[OF assms(2)]
  by (auto simp: client_Do_closes client_Do_requests intro!: exI[of _ 1])

lemma loop_frame_retry:
  assumes "f () = Inr req" "client_Do env req w = (Inl e, w1)"
    and "loop_frame env f (Sleep d w1) out"
  shows "loop_frame env f w out"
proof -
  have c: "closes w1 = closes w" and r: "requests w1 = requests w @ [req]"
    and b: "bodies w1 = bodies w"
    using assms(2) by (simp_all add: client_Do_closes client_Do_requests client_Do_Inl)
  from assms(3) obtain k where
    k: "requests (snd out) = requests (Sleep d w1) @ replicate k (projr (f ()))"
    unfolding loop_frame_def by blast
  have "requests (snd out) = requests w @ replicate (Suc k) (projr (f ()))"
    using k r assms(1) by (simp add: replicate_app_Cons_same)
  moreover have "\<not> isl (f ())" using assms(1) by simp
  ultimately have "\<exists>k. requests (snd out) = requests w @ replicate k (projr (f ())) \<and>
           (isl (f ()) \<longrightarrow> k = 0) \<and> (isl (fst out) \<or> 0 < k)" by blast
  then show ?thesis
    using assms(3) c b unfolding loop_frame_def by (simp split: sum.splits)
qed

lemma backoff_loop_frame: "loop_frame env f w (backoff_loop env f a err w)"
proof (induction env f a err w rule: backoff_loop.induct)
  case (1 env f attempt err w)
  show ?case
  proof (cases "attempt < 6")
    case False
    then show ?thesis
      by (subst backoff_loop.simps) (simp add: loop_frame_stop split: option.splits)
  next
    case lt: True
    show ?thesis
    proof (cases "f ()")
      case (Inl e)
      with lt show ?thesis
        by (subst backoff_loop.simps) (simp add: loop_frame_stop)
    next
      case req: (Inr req)
      obtain r w1 where cd: "client_Do env req w = (r, w1)"
        by (cases "client_Do env req w")
      show ?thesis
      proof (cases r)
        case (Inr resp)
        with lt req cd show ?thesis
          by (subst backoff_loop.simps) (simp add: loop_frame_success)
      next
        case (Inl e)
        have "loop_frame env f (Sleep (Duration (backoff attempt) * Second) w1)
                (backoff_loop env f (attempt + 1) (Some e)
                   (Sleep (Duration (backoff attempt) * Second) w1))"
          using "1.IH" [OF lt req cd [symmetric] Inl] .
        then have "loop_frame env f w
                (backoff_loop env f (attempt + 1) (Some e)
                   (Sleep (Duration (backoff attempt) * Second) w1))"
          using loop_frame_retry req cd Inl by blast
        with lt req cd Inl show ?thesis
          by (subst backoff_loop.simps) simp
      qed
    qed
  qed
qed

lemma ExpBackoffRequest_frame: "loop_frame env f w (ExpBackoffRequest env f w)"
  by (simp add: ExpBackoffRequest_def backoff_loop_frame)

lemma ExpBackoffRequest_closes:
  "ExpBackoffRequest env f w = (r, w1) \<Longrightarrow> closes w1 = closes w"
  using ExpBackoffRequest_frame [of env f w] by (simp add: loop_frame_def)

lemma ExpBackoffRequest_Inr:
  "ExpBackoffRequest env f w = (Inr resp, w1) \<Longrightarrow>
     Body resp = length (bodies w) \<and> length (bodies w1) = Suc (length (bodies w))"
  using ExpBackoffRequest_frame [of env f w] by (auto simp: loop_frame_def)

lemma ExpBackoffRequest_Inl:
  "ExpBackoffRequest env f w = (Inl e, w1) \<Longrightarrow> bodies w1 = bodies w"
  using ExpBackoffRequest_frame [of env f w] by (auto simp: loop_frame_def)

lemma ExpBackoffRequest_requests:
  "ExpBackoffRequest env f w = (r, w1) \<Longrightarrow> f () = Inr req \<Longrightarrow>
     \<exists>k. requests w1 = requests w @ replicate k req \<and> (isl r \<or> 0 < k)"
  using ExpBackoffRequest_frame [of env f w] by (auto simp: loop_frame_def)

lemma ExpBackoffRequest_no_request:
  "ExpBackoffRequest env f w = (r, w1) \<Longrightarrow> f () = Inl e \<Longrightarrow> requests w1 = requests w"
  using ExpBackoffRequest_frame [of env f w] by (auto simp: loop_frame_def)

lemma Decode_frame:
  "Decode env b w = (r, w1) \<Longrightarrow>
     closes w1 = closes w \<and> requests w1 = requests w \<and> sleeps w1 = sleeps w \<and>
     length (bodies w1) = length (bodies w)"
  by (auto simp: Decode_def Let_def split: if_splits prod.splits)

lemma ReadAll_frame:
  "ReadAll b w = (r, w1) \<Longrightarrow>
     closes w1 = closes w \<and> requests w1 = requests w \<and> sleeps w1 = sleeps w \<and>
     length (bodies w1) = length (bodies w)"
  by (auto simp: ReadAll_def Let_def split: if_splits prod.splits)

lemma ReadAll_drains:
  "ReadAll b w = ((bs, None), w1) \<Longrightarrow> b < length (bodies w1) \<and> unread (bodies w1 ! b) = []"
  by (auto simp: ReadAll_def Let_def split: if_splits prod.splits)

lemma AliveNodesMap_closes: "AliveNodesMap env w = (r, w1) \<Longrightarrow> closes w1 = closes w"
  by (auto simp: AliveNodesMap_def split: prod.splits sum.splits
      dest!: ExpBackoffRequest_closes Decode_frame)

lemma ExpBackoffRequest_built:
  "ExpBackoffRequest env f w = (Inr resp, w1) \<Longrightarrow> \<exists>req. f () = Inr req"
  using ExpBackoffRequest_frame [of env f w] by (cases "f ()") (auto simp: loop_frame_def)

lemma ExpBackoffRequest_answer:
  "ExpBackoffRequest env f w = (Inr resp, w1) \<Longrightarrow> f () = Inr req \<Longrightarrow>
     \<exists>bs re. transport env (length (requests w1) - 1) req = Inr (bs, re) \<and>
       bodies w1 = bodies w @ [\<lparr>unread = bs, read_err = re\<rparr>] \<and>
       Body resp = length (bodies w)"
  using ExpBackoffRequest_frame [of env f w] by (auto simp: loop_frame_def)

lemma assign_nodes_append:
  "assign_nodes (xs @ ys) m = assign_nodes ys (assign_nodes xs m)"
  by (induction xs arbitrary: m) simp_all

lemma assign_nodes_other:
  "\<forall>n\<in>set ys. ID n \<noteq> k \<Longrightarrow> assign_nodes ys m k = m k"
  by (induction ys arbitrary: m) auto

lemma assign_nodes_last:
  "\<forall>n\<in>set ys. ID n \<noteq> ID node \<Longrightarrow>
     assign_nodes (xs @ node # ys) m (ID node) = Some node"
  by (simp add: assign_nodes_append assign_nodes_other)

lemma dom_assign_nodes: "dom (assign_nodes xs m) = dom m \<union> ID ` set xs"
  by (induction xs arbitrary: m) auto

lemma assign_nodes_distinct:
  assumes "distinct (map ID xs)" "node \<in> set xs"
  shows "assign_nodes xs m (ID node) = Some node"
proof -
  from assms(2) obtain ys zs where xs: "xs = ys @ node # zs"
    by (auto simp: in_set_conv_decomp)
  with assms(1) have "ID node \<notin> ID ` set zs" by simp
  then have "\<forall>n\<in>set zs. ID n \<noteq> ID node" by (metis image_eqI)
  with xs show ?thesis by (simp add: assign_nodes_last)
qed

lemma AliveNodesMap_InrE:
  assumes "AliveNodesMap env w = (Inr nodeMap, w')"
  obtains resp w1 nodeList where
    "ExpBackoffRequest env (nodes_request env) w = (Inr resp, w1)"
    "Decode env (Body resp) w1 = (Inr nodeList, w')"
    "nodeMap = assign_nodes nodeList Map.empty"
  using assms by (auto simp: AliveNodesMap_def split: prod.splits sum.splits)

lemma Decode_outcome:
  "Decode env b w = (r, w1) \<Longrightarrow> b < length (bodies w) \<Longrightarrow>
     r = fst (json_decode env (unread (bodies w ! b)) (read_err (bodies w ! b)))"
  by (auto simp: Decode_def Let_def split: prod.splits)

section \<open>The node directory resolver\<close>

text \<open>
  Claim C10. \<^verbatim>\<open>AliveNodesMap\<close> never calls \<^verbatim>\<open>Close\<close>: whatever the outcome (transport
  error, JSON decode error or a directory), the log of closed bodies is what it was
  before the call; and when the retried request returned a response, that response's
  body is a new entry of the store, which the call therefore leaves open.
\<close>

theorem AliveNodesMap_leaves_body_open:
  "closes (snd (AliveNodesMap env w)) = closes w \<and>
   (ExpBackoffRequest env (nodes_request env) w = (Inr resp, w1) \<longrightarrow>
      Body resp = length (bodies w) \<and>
      length (bodies (snd (AliveNodesMap env w))) = Suc (length (bodies w)))"
proof -
  have "closes (snd (AliveNodesMap env w)) = closes w"
    by (cases "AliveNodesMap env w") (simp add: AliveNodesMap_closes)
  moreover have "Body resp = length (bodies w) \<and>
      length (bodies (snd (AliveNodesMap env w))) = Suc (length (bodies w))"
    if run: "ExpBackoffRequest env (nodes_request env) w = (Inr resp, w1)"
  proof -
    obtain r w2 where dec: "Decode env (Body resp) w1 = (r, w2)"
      by (cases "Decode env (Body resp) w1")
    have "snd (AliveNodesMap env w) = w2"
      using run dec by (simp add: AliveNodesMap_def split: sum.splits)
    then show ?thesis
      using ExpBackoffRequest_Inr [OF run] Decode_frame [OF dec] by simp
  qed
  ultimately show ?thesis by blast
qed

theorem AliveNodesMap_leaves_body_open_witness:
  "ExpBackoffRequest (cluster [node1] ([], None)) (nodes_request (cluster [node1] ([], None)))
      world0 =
     (Inr \<lparr>Body = 0\<rparr>,
      \<lparr>requests =
         [\<lparr>Method = ''GET'', URL = ''http://cflux:8080/nodes/prod'', Payload = None\<rparr>],
       sleeps = [], bodies = [\<lparr>unread = [], read_err = None\<rparr>], closes = []\<rparr>) \<and>
   closes (snd (AliveNodesMap (cluster [node1] ([], None)) world0)) = [] \<and>
   length (bodies (snd (AliveNodesMap (cluster [node1] ([], None)) world0))) = 1"
proof -
  have run: "ExpBackoffRequest (cluster [node1] ([], None))
      (nodes_request (cluster [node1] ([], None))) world0 =
     (Inr \<lparr>Body = 0\<rparr>,
      \<lparr>requests =
         [\<lparr>Method = ''GET'', URL = ''http://cflux:8080/nodes/prod'', Payload = None\<rparr>],
       sleeps = [], bodies = [\<lparr>unread = [], read_err = None\<rparr>], closes = []\<rparr>)"
    by (simp add: run_defs)
  show ?thesis
    using run AliveNodesMap_leaves_body_open [of "cluster [node1] ([], None)" world0
        "\<lparr>Body = 0\<rparr>"
        "\<lparr>requests =
         [\<lparr>Method = ''GET'', URL = ''http://cflux:8080/nodes/prod'', Payload = None\<rparr>],
       sleeps = [], bodies = [\<lparr>unread = [], read_err = None\<rparr>], closes = []\<rparr>"]
    by (simp add: world0_def)
qed

text \<open>
  Claim C7. Whenever \<^verbatim>\<open>AliveNodesMap\<close> returns a directory, every request it sent is
  the same GET of the configured base URL followed by \<^verbatim>\<open>/nodes/\<close> and the escaped cluster
  name (at least one, more when attempts failed); the directory is built from the list
  the JSON decoder made of the answer to the last of them; its keys are exactly the
  identifiers in that list, whatever the \<^verbatim>\<open>Alive\<close> flags; and when the identifiers are
  distinct every record of the list, alive or not, is the entry of its identifier.
\<close>

theorem AliveNodesMap_mirrors_control_plane:
  assumes "AliveNodesMap env w = (Inr nodeMap, w')"
  shows "\<exists>k nodeList bs re.
     0 < k \<and>
     requests w' = requests w @ replicate k
       \<lparr>Method = ''GET'',
        URL = CFLUX_ENDPOINT env @ ''/nodes/'' @ QueryEscape env (CLUSTER env),
        Payload = None\<rparr> \<and>
     transport env (length (requests w') - 1)
       \<lparr>Method = ''GET'',
        URL = CFLUX_ENDPOINT env @ ''/nodes/'' @ QueryEscape env (CLUSTER env),
        Payload = None\<rparr> = Inr (bs, re) \<and>
     fst (json_decode env bs re) = Inr nodeList \<and>
     nodeMap = assign_nodes nodeList Map.empty \<and>
     dom nodeMap = ID ` set nodeList \<and>
     (distinct (map ID nodeList) \<longrightarrow> (\<forall>node\<in>set nodeList. nodeMap (ID node) = Some node))"
proof -
  let ?req = "\<lparr>Method = ''GET'',
        URL = CFLUX_ENDPOINT env @ ''/nodes/'' @ QueryEscape env (CLUSTER env),
        Payload = None\<rparr>"
  from assms obtain resp w1 nodeList where
    run: "ExpBackoffRequest env (nodes_request env) w = (Inr resp, w1)"
    and dec: "Decode env (Body resp) w1 = (Inr nodeList, w')"
    and nm: "nodeMap = assign_nodes nodeList Map.empty"
    by (rule AliveNodesMap_InrE)
  from ExpBackoffRequest_built [OF run] have built: "nodes_request env () = Inr ?req"
    by (auto simp: nodes_request_def NewRequest_def split: option.splits)
  from ExpBackoffRequest_requests [OF run built] obtain k where
    k: "requests w1 = requests w @ replicate k ?req" "0 < k" by auto
  from ExpBackoffRequest_answer [OF run built] obtain bs re where
    ans: "transport env (length (requests w1) - 1) ?req = Inr (bs, re)"
      "bodies w1 = bodies w @ [\<lparr>unread = bs, read_err = re\<rparr>]"
      "Body resp = length (bodies w)" by blast
  have same: "requests w' = requests w1" using Decode_frame [OF dec] by simp
  have "Inr nodeList = fst (json_decode env bs re)"
    using Decode_outcome [OF dec] ans(2,3) by simp
  then have js: "fst (json_decode env bs re) = Inr nodeList" by simp
  have d: "dom nodeMap = ID ` set nodeList" by (simp add: nm dom_assign_nodes)
  have all: "distinct (map ID nodeList) \<longrightarrow>
      (\<forall>node\<in>set nodeList. nodeMap (ID node) = Some node)"
    by (simp add: nm assign_nodes_distinct)
  have "0 < k \<and> requests w' = requests w @ replicate k ?req \<and>
     transport env (length (requests w') - 1) ?req = Inr (bs, re) \<and>
     fst (json_decode env bs re) = Inr nodeList \<and>
     nodeMap = assign_nodes nodeList Map.empty \<and>
     dom nodeMap = ID ` set nodeList \<and>
     (distinct (map ID nodeList) \<longrightarrow> (\<forall>node\<in>set nodeList. nodeMap (ID node) = Some node))"
    using k ans(1) js nm d all unfolding same by (intro conjI)
  then show ?thesis by (intro exI)
qed

theorem AliveNodesMap_mirrors_control_plane_witness:
  "AliveNodesMap (cluster [node1, node2] ([], None)) world0 =
     (Inr (assign_nodes [node1, node2] Map.empty),
      \<lparr>requests =
         [\<lparr>Method = ''GET'', URL = ''http://cflux:8080/nodes/prod'', Payload = None\<rparr>],
       sleeps = [], bodies = [\<lparr>unread = [], read_err = None\<rparr>], closes = []\<rparr>) \<and>
   \<not> Alive node2 \<and>
   assign_nodes [node1, node2] Map.empty (ID node2) = Some node2 \<and>
   dom (assign_nodes [node1, node2] Map.empty) = {1, 2}"
proof -
  let ?C = "cluster [node1, node2] ([], None)"
  have run: "AliveNodesMap ?C world0 =
     (Inr (assign_nodes [node1, node2] Map.empty),
      \<lparr>requests =
         [\<lparr>Method = ''GET'', URL = ''http://cflux:8080/nodes/prod'', Payload = None\<rparr>],
       sleeps = [], bodies = [\<lparr>unread = [], read_err = None\<rparr>], closes = []\<rparr>)"
    by (simp add: run_defs)
  from AliveNodesMap_mirrors_control_plane [OF run] obtain k nodeList bs re where
    got: "fst (json_decode ?C bs re) = Inr nodeList"
      "dom (assign_nodes [node1, node2] Map.empty) = ID ` set nodeList"
      "distinct (map ID nodeList) \<longrightarrow>
         (\<forall>node\<in>set nodeList. assign_nodes [node1, node2] Map.empty (ID node) = Some node)"
    by blast
  from got(1) have nl: "nodeList = [node1, node2]" by (simp add: cluster_def)
  have "\<not> Alive node2" by (simp add: node2_def)
  moreover have "assign_nodes [node1, node2] Map.empty (ID node2) = Some node2"
    using got(3) unfolding nl by (simp add: node1_def node2_def)
  moreover have "dom (assign_nodes [node1, node2] Map.empty) = {1, 2}"
    using got(2) unfolding nl by (simp add: node1_def node2_def)
  ultimately show ?thesis using run by blast
qed

text \<open>
  Claim C8. When the decoded array holds a record after which no record with the same
  identifier follows, the directory maps that identifier to this record, whatever
  came earlier in the array: later entries overwrite earlier ones.
\<close>

theorem AliveNodesMap_last_record_wins:
  assumes "ExpBackoffRequest env (nodes_request env) w = (Inr resp, w1)"
    and "Decode env (Body resp) w1 = (Inr (earlier @ node # later), w2)"
    and "\<forall>n\<in>set later. ID n \<noteq> ID node"
  shows "\<exists>nodeMap. AliveNodesMap env w = (Inr nodeMap, w2) \<and> nodeMap (ID node) = Some node"
  using assms by (simp add: AliveNodesMap_def assign_nodes_last)

theorem AliveNodesMap_last_record_wins_witness:
  "ExpBackoffRequest (cluster [node1, node1_moved, node2] ([], None))
      (nodes_request (cluster [node1, node1_moved, node2] ([], None))) world0 =
     (Inr \<lparr>Body = 0\<rparr>,
      \<lparr>requests =
         [\<lparr>Method = ''GET'', URL = ''http://cflux:8080/nodes/prod'', Payload = None\<rparr>],
       sleeps = [], bodies = [\<lparr>unread = [], read_err = None\<rparr>], closes = []\<rparr>) \<and>
   Decode (cluster [node1, node1_moved, node2] ([], None)) (Body \<lparr>Body = 0\<rparr>)
      \<lparr>requests =
         [\<lparr>Method = ''GET'', URL = ''http://cflux:8080/nodes/prod'', Payload = None\<rparr>],
       sleeps = [], bodies = [\<lparr>unread = [], read_err = None\<rparr>], closes = []\<rparr> =
     (Inr ([node1] @ node1_moved # [node2]),
      \<lparr>requests =
         [\<lparr>Method = ''GET'', URL = ''http://cflux:8080/nodes/prod'', Payload = None\<rparr>],
       sleeps = [], bodies = [\<lparr>unread = [], read_err = None\<rparr>], closes = []\<rparr>) \<and>
   ID node1 = ID node1_moved \<and> ID node2 \<noteq> ID node1_moved \<and>
   (\<exists>nodeMap.
      AliveNodesMap (cluster [node1, node1_moved, node2] ([], None)) world0 =
        (Inr nodeMap,
         \<lparr>requests =
            [\<lparr>Method = ''GET'', URL = ''http://cflux:8080/nodes/prod'', Payload = None\<rparr>],
          sleeps = [], bodies = [\<lparr>unread = [], read_err = None\<rparr>], closes = []\<rparr>) \<and>
      nodeMap (ID node1_moved) = Some node1_moved)"
proof -
  let ?C = "cluster [node1, node1_moved, node2] ([], None)"
  let ?W = "\<lparr>requests =
         [\<lparr>Method = ''GET'', URL = ''http://cflux:8080/nodes/prod'', Payload = None\<rparr>],
       sleeps = [], bodies = [\<lparr>unread = [], read_err = None\<rparr>], closes = []\<rparr>"
  have run: "ExpBackoffRequest ?C (nodes_request ?C) world0 = (Inr \<lparr>Body = 0\<rparr>, ?W)"
    by (simp add: run_defs)
  have dec: "Decode ?C (Body \<lparr>Body = 0\<rparr>) ?W = (Inr ([node1] @ node1_moved # [node2]), ?W)"
    by (simp add: Decode_def cluster_def)
  have ids: "ID node1 = ID node1_moved" "ID node2 \<noteq> ID node1_moved"
    by (simp_all add: node1_def node2_def node1_moved_def)
  have later: "\<forall>n\<in>set [node2]. ID n \<noteq> ID node1_moved" using ids by simp
  show ?thesis
    using run dec ids AliveNodesMap_last_record_wins [OF run dec later] by blast
qed

section \<open>FieldDimensions and ExpandSources\<close>

text \<open>
  Claim C6. When a \<^verbatim>\<open>FieldDimensions\<close> call gets as far as a decoded response and that
  response carries a non-empty \<^verbatim>\<open>Error\<close> string, the call returns \<^verbatim>\<open>errors.New\<close> of exactly
  that string, and nil for the fields map and for the dimensions map.
\<close>

theorem FieldDimensions_remote_error:
  assumes "sources_MarshalBinary env sources = Inr sourceBinary"
    and "marshal_FieldDimensionsCommand env
           \<lparr>fdc_ShardID = ShardID ric, fdc_Sources = sourceBinary\<rparr> = Inr fdcBinary"
    and "AliveNodesMap env w = (Inr aliveNodes, w1)"
    and "ExpBackoffRequest env
           (node_request env aliveNodes ric ''/fielddimensions'' fdcBinary) w1 = (Inr resp, w2)"
    and "ReadAll (Body resp) w2 = ((respBody, None), w3)"
    and "unmarshal_FieldDimensionsCommandResponse env respBody = Inr respMessage"
    and "fdcr_Error respMessage \<noteq> []"
  shows "fst (FieldDimensions env ric sources w) =
           (None, None, Some (ErrorString (fdcr_Error respMessage)))"
  using assms by (simp add: FieldDimensions_def)

theorem FieldDimensions_remote_error_witness:
  "sources_MarshalBinary (cluster [node1] ([1], None)) [] = Inr [] \<and>
   marshal_FieldDimensionsCommand (cluster [node1] ([1], None))
     \<lparr>fdc_ShardID = ShardID (shard5_on 1), fdc_Sources = []\<rparr> = Inr [] \<and>
   AliveNodesMap (cluster [node1] ([1], None)) world0 =
     (Inr (assign_nodes [node1] Map.empty), looked_up) \<and>
   ExpBackoffRequest (cluster [node1] ([1], None))
     (node_request (cluster [node1] ([1], None)) (assign_nodes [node1] Map.empty)
        (shard5_on 1) ''/fielddimensions'' []) looked_up =
     (Inr \<lparr>Body = 1\<rparr>,
      looked_up\<lparr>requests := [nodes_get, post ''http://10.0.0.1:9000/fielddimensions''],
                 bodies := [\<lparr>unread = [], read_err = None\<rparr>,
                            \<lparr>unread = [1], read_err = None\<rparr>]\<rparr>) \<and>
   fst (FieldDimensions (cluster [node1] ([1], None)) (shard5_on 1) [] world0) =
     (None, None, Some (ErrorString ''shard not found''))"
proof -
  let ?C = "cluster [node1] ([1], None)"
  let ?W2 = "looked_up\<lparr>requests := [nodes_get, post ''http://10.0.0.1:9000/fielddimensions''],
                 bodies := [\<lparr>unread = [], read_err = None\<rparr>,
                            \<lparr>unread = [1], read_err = None\<rparr>]\<rparr>"
  let ?W3 = "looked_up\<lparr>requests := [nodes_get, post ''http://10.0.0.1:9000/fielddimensions''],
                 bodies := [\<lparr>unread = [], read_err = None\<rparr>,
                            \<lparr>unread = [], read_err = None\<rparr>]\<rparr>"
  let ?M = "\<lparr>fdcr_Fields = [''value'' \<mapsto> 1], fdcr_Dimensions = [''host'', ''host''],
             fdcr_Error = ''shard not found''\<rparr>"
  have a1: "sources_MarshalBinary ?C [] = Inr []" by (simp add: cluster_def)
  have a2: "marshal_FieldDimensionsCommand ?C
     \<lparr>fdc_ShardID = ShardID (shard5_on 1), fdc_Sources = []\<rparr> = Inr []"
    by (simp add: cluster_def)
  have a3: "AliveNodesMap ?C world0 = (Inr (assign_nodes [node1] Map.empty), looked_up)"
    by (simp add: run_defs)
  have a4: "ExpBackoffRequest ?C
     (node_request ?C (assign_nodes [node1] Map.empty) (shard5_on 1) ''/fielddimensions'' [])
     looked_up = (Inr \<lparr>Body = 1\<rparr>, ?W2)"
    by (simp add: run_defs)
  have a5: "ReadAll (Body \<lparr>Body = 1\<rparr>) ?W2 = (([1], None), ?W3)"
    by (simp add: run_defs)
  have a6: "unmarshal_FieldDimensionsCommandResponse ?C [1] = Inr ?M"
    by (simp add: cluster_def)
  have a7: "fdcr_Error ?M \<noteq> []" by simp
  show ?thesis
    using a1 a2 a3 a4 FieldDimensions_remote_error [OF a1 a2 a3 a4 a5 a6 a7] by simp
qed

lemma FieldDimensions_closes_once:
  assumes "sources_MarshalBinary env sources = Inr sourceBinary"
    and "marshal_FieldDimensionsCommand env
           \<lparr>fdc_ShardID = ShardID ric, fdc_Sources = sourceBinary\<rparr> = Inr fdcBinary"
    and alive: "AliveNodesMap env w = (Inr aliveNodes, w1)"
    and run: "ExpBackoffRequest env
           (node_request env aliveNodes ric ''/fielddimensions'' fdcBinary) w1 = (Inr resp, w2)"
  shows "closes (snd (FieldDimensions env ric sources w)) = closes w @ [Body resp]"
proof -
  obtain respBody rerr w3 where rd: "ReadAll (Body resp) w2 = ((respBody, rerr), w3)"
    by (metis surj_pair)
  have "snd (FieldDimensions env ric sources w) = Close (Body resp) w3"
    using assms rd by (simp add: FieldDimensions_def Let_def)
  moreover have "closes w3 = closes w"
    using ReadAll_frame [OF rd] ExpBackoffRequest_closes [OF run]
      AliveNodesMap_closes [OF alive] by simp
  ultimately show ?thesis by simp
qed

lemma ExpandSources_closes_once:
  assumes "sources_MarshalBinary env sources = Inr sourceBinary"
    and "marshal_ExpandSourcesCommand env
           \<lparr>esc_ShardID = ShardID ric, esc_Sources = sourceBinary\<rparr> = Inr cmdBinary"
    and alive: "AliveNodesMap env w = (Inr aliveNodes, w1)"
    and run: "ExpBackoffRequest env
           (node_request env aliveNodes ric ''/expandsources'' cmdBinary) w1 = (Inr resp, w2)"
  shows "closes (snd (ExpandSources env ric sources w)) = closes w @ [Body resp]"
proof -
  obtain respBody rerr w3 where rd: "ReadAll (Body resp) w2 = ((respBody, rerr), w3)"
    by (metis surj_pair)
  have "snd (ExpandSources env ric sources w) = Close (Body resp) w3"
    using assms rd by (simp add: ExpandSources_def Let_def)
  moreover have "closes w3 = closes w"
    using ReadAll_frame [OF rd] ExpBackoffRequest_closes [OF run]
      AliveNodesMap_closes [OF alive] by simp
  ultimately show ?thesis by simp
qed

text \<open>
  Claim C9. In \<^verbatim>\<open>FieldDimensions\<close> and in \<^verbatim>\<open>ExpandSources\<close>, once the retried request has
  returned a response, the call makes exactly one \<^verbatim>\<open>Close\<close>, on the body of that response,
  whatever happens next (a failing read, a failing decode, an embedded error or
  success): the log of closed bodies it returns is the one it started from followed by
  that body.
\<close>

theorem rpc_body_closed_once:
  "(sources_MarshalBinary env sources = Inr sourceBinary \<longrightarrow>
    marshal_FieldDimensionsCommand env
      \<lparr>fdc_ShardID = ShardID ric, fdc_Sources = sourceBinary\<rparr> = Inr fdcBinary \<longrightarrow>
    AliveNodesMap env w = (Inr aliveNodes, w1) \<longrightarrow>
    ExpBackoffRequest env
      (node_request env aliveNodes ric ''/fielddimensions'' fdcBinary) w1 = (Inr resp, w2) \<longrightarrow>
    closes (snd (FieldDimensions env ric sources w)) = closes w @ [Body resp]) \<and>
   (sources_MarshalBinary env sources = Inr sourceBinary \<longrightarrow>
    marshal_ExpandSourcesCommand env
      \<lparr>esc_ShardID = ShardID ric, esc_Sources = sourceBinary\<rparr> = Inr cmdBinary \<longrightarrow>
    AliveNodesMap env w = (Inr aliveNodes, w1) \<longrightarrow>
    ExpBackoffRequest env
      (node_request env aliveNodes ric ''/expandsources'' cmdBinary) w1 = (Inr resp', w2') \<longrightarrow>
    closes (snd (ExpandSources env ric sources w)) = closes w @ [Body resp'])"
proof (intro conjI impI)
  assume "sources_MarshalBinary env sources = Inr sourceBinary"
    and "marshal_FieldDimensionsCommand env
      \<lparr>fdc_ShardID = ShardID ric, fdc_Sources = sourceBinary\<rparr> = Inr fdcBinary"
    and "AliveNodesMap env w = (Inr aliveNodes, w1)"
    and "ExpBackoffRequest env
      (node_request env aliveNodes ric ''/fielddimensions'' fdcBinary) w1 = (Inr resp, w2)"
  then show "closes (snd (FieldDimensions env ric sources w)) = closes w @ [Body resp]"
    by (rule FieldDimensions_closes_once)
next
  assume "sources_MarshalBinary env sources = Inr sourceBinary"
    and "marshal_ExpandSourcesCommand env
      \<lparr>esc_ShardID = ShardID ric, esc_Sources = sourceBinary\<rparr> = Inr cmdBinary"
    and "AliveNodesMap env w = (Inr aliveNodes, w1)"
    and "ExpBackoffRequest env
      (node_request env aliveNodes ric ''/expandsources'' cmdBinary) w1 = (Inr resp', w2')"
  then show "closes (snd (ExpandSources env ric sources w)) = closes w @ [Body resp']"
    by (rule ExpandSources_closes_once)
qed

theorem rpc_body_closed_once_witness:
  "AliveNodesMap (cluster [node1] ([1], None)) world0 =
     (Inr (assign_nodes [node1] Map.empty), looked_up) \<and>
   ExpBackoffRequest (cluster [node1] ([1], None))
     (node_request (cluster [node1] ([1], None)) (assign_nodes [node1] Map.empty)
        (shard5_on 1) ''/fielddimensions'' []) looked_up =
     (Inr \<lparr>Body = 1\<rparr>,
      looked_up\<lparr>requests := [nodes_get, post ''http://10.0.0.1:9000/fielddimensions''],
                 bodies := [\<lparr>unread = [], read_err = None\<rparr>,
                            \<lparr>unread = [1], read_err = None\<rparr>]\<rparr>) \<and>
   ExpBackoffRequest (cluster [node1] ([1], None))
     (node_request (cluster [node1] ([1], None)) (assign_nodes [node1] Map.empty)
        (shard5_on 1) ''/expandsources'' []) looked_up =
     (Inr \<lparr>Body = 1\<rparr>,
      looked_up\<lparr>requests := [nodes_get, post ''http://10.0.0.1:9000/expandsources''],
                 bodies := [\<lparr>unread = [], read_err = None\<rparr>,
                            \<lparr>unread = [1], read_err = None\<rparr>]\<rparr>) \<and>
   closes (snd (FieldDimensions (cluster [node1] ([1], None)) (shard5_on 1) [] world0)) = [1] \<and>
   closes (snd (ExpandSources (cluster [node1] ([1], None)) (shard5_on 1) [] world0)) = [1]"
proof -
  let ?C = "cluster [node1] ([1], None)"
  let ?F = "looked_up\<lparr>requests := [nodes_get, post ''http://10.0.0.1:9000/fielddimensions''],
                 bodies := [\<lparr>unread = [], read_err = None\<rparr>,
                            \<lparr>unread = [1], read_err = None\<rparr>]\<rparr>"
  let ?E = "looked_up\<lparr>requests := [nodes_get, post ''http://10.0.0.1:9000/expandsources''],
                 bodies := [\<lparr>unread = [], read_err = None\<rparr>,
                            \<lparr>unread = [1], read_err = None\<rparr>]\<rparr>"
  have a1: "sources_MarshalBinary ?C [] = Inr []" by (simp add: cluster_def)
  have a2: "marshal_FieldDimensionsCommand ?C
     \<lparr>fdc_ShardID = ShardID (shard5_on 1), fdc_Sources = []\<rparr> = Inr []"
    by (simp add: cluster_def)
  have a2': "marshal_ExpandSourcesCommand ?C
     \<lparr>esc_ShardID = ShardID (shard5_on 1), esc_Sources = []\<rparr> = Inr []"
    by (simp add: cluster_def)
  have a3: "AliveNodesMap ?C world0 = (Inr (assign_nodes [node1] Map.empty), looked_up)"
    by (simp add: run_defs)
  have a4: "ExpBackoffRequest ?C
     (node_request ?C (assign_nodes [node1] Map.empty) (shard5_on 1) ''/fielddimensions'' [])
     looked_up = (Inr \<lparr>Body = 1\<rparr>, ?F)"
    by (simp add: run_defs)
  have a4': "ExpBackoffRequest ?C
     (node_request ?C (assign_nodes [node1] Map.empty) (shard5_on 1) ''/expandsources'' [])
     looked_up = (Inr \<lparr>Body = 1\<rparr>, ?E)"
    by (simp add: run_defs)
  show ?thesis
    using a1 a2 a2' a3 a4 a4'
      rpc_body_closed_once [of ?C "[]" "[]" "shard5_on 1" "[]" world0
        "assign_nodes [node1] Map.empty" looked_up "\<lparr>Body = 1\<rparr>" ?F "[]" "\<lparr>Body = 1\<rparr>" ?E]
    by (simp add: world0_def)
qed

section \<open>The requests an operation sends\<close>

lemma ExpBackoffRequest_first:
  "f () = Inr req \<Longrightarrow>
   ExpBackoffRequest env f w =
     (case client_Do env req w of
        (Inr resp, w1) \<Rightarrow> (Inr resp, w1)
      | (Inl e, w1) \<Rightarrow>
          backoff_loop env f (1 + 1) (Some e) (Sleep (Duration (backoff 1) * Second) w1))"
  unfolding ExpBackoffRequest_def
  by (subst backoff_loop.simps) simp

lemma ExpBackoffRequest_sends:
  assumes "f () = Inr req" "ExpBackoffRequest env f w = (r, w1)"
  shows "\<exists>k. requests w1 = requests w @ replicate (Suc k) req"
proof -
  note first = ExpBackoffRequest_first [where f = f and req = req and env = env and w = w,
      OF assms(1)]
  obtain r0 w0 where cd: "client_Do env req w = (r0, w0)"
    by (cases "client_Do env req w")
  have sent: "requests w0 = requests w @ [req]" using cd by (rule client_Do_requests)
  show ?thesis
  proof (cases r0)
    case (Inr resp)
    then have "w1 = w0"
      using assms(2) cd unfolding first by simp
    with sent show ?thesis by (intro exI [of _ 0]) simp
  next
    case (Inl e)
    let ?w = "Sleep (Duration (backoff 1) * Second) w0"
    have "(r, w1) = backoff_loop env f (1 + 1) (Some e) ?w"
      using assms(2) cd Inl unfolding first by simp
    then have "loop_frame env f ?w (r, w1)"
      using backoff_loop_frame [of env f ?w "1 + 1" "Some e"] by simp
    then obtain k where "requests w1 = requests ?w @ replicate k req"
      using assms(1) by (auto simp: loop_frame_def)
    then have "requests w1 = requests w @ replicate (Suc k) req"
      using sent by (simp add: replicate_app_Cons_same)
    then show ?thesis by blast
  qed
qed

lemma index_nodes_absent: "k \<notin> dom nodeMap \<Longrightarrow> BindAddress (index_nodes nodeMap k) = []"
  by (auto simp: index_nodes_def zero_node_def split: option.splits)

lemma node_request_absent:
  assumes "NodeID ric \<notin> dom aliveNodes" "url_error env (''http://'' @ path) = None"
  shows "node_request env aliveNodes ric path data () =
           Inr \<lparr>Method = ''POST'', URL = ''http://'' @ path, Payload = Some data\<rparr>"
  using assms by (simp add: node_request_def NewRequest_def index_nodes_absent)

lemma CreateIterator_requests:
  assumes "AliveNodesMap env w = (r0, w1)"
    and "opt_MarshalBinary env opt = Inr optBinary"
    and "marshal_ReadShardCommand env
           \<lparr>rsc_ShardID = ShardID ric, rsc_IteratorOptions = optBinary\<rparr> = Inr data"
  shows "requests (snd (CreateIterator env ric opt w)) =
     requests (snd (ExpBackoffRequest env
       (node_request env (case r0 of Inr nodeMap \<Rightarrow> nodeMap | Inl _ \<Rightarrow> Map.empty)
          ric ''/read'' data) w1))"
  using assms
  by (auto simp: CreateIterator_def Let_def split: prod.splits sum.splits option.splits
      dest: ReadAll_frame)

lemma FieldDimensions_requests:
  assumes "sources_MarshalBinary env sources = Inr sourceBinary"
    and "marshal_FieldDimensionsCommand env
           \<lparr>fdc_ShardID = ShardID ric, fdc_Sources = sourceBinary\<rparr> = Inr fdcBinary"
    and "AliveNodesMap env w = (Inr aliveNodes, w1)"
  shows "requests (snd (FieldDimensions env ric sources w)) =
     requests (snd (ExpBackoffRequest env
       (node_request env aliveNodes ric ''/fielddimensions'' fdcBinary) w1))"
  using assms
  by (auto simp: FieldDimensions_def Let_def split: prod.splits sum.splits option.splits
      dest: ReadAll_frame)

lemma ExpandSources_requests:
  assumes "sources_MarshalBinary env sources = Inr sourceBinary"
    and "marshal_ExpandSourcesCommand env
           \<lparr>esc_ShardID = ShardID ric, esc_Sources = sourceBinary\<rparr> = Inr cmdBinary"
    and "AliveNodesMap env w = (Inr aliveNodes, w1)"
  shows "requests (snd (ExpandSources env ric sources w)) =
     requests (snd (ExpBackoffRequest env
       (node_request env aliveNodes ric ''/expandsources'' cmdBinary) w1))"
  using assms
  by (auto simp: ExpandSources_def Let_def split: prod.splits sum.splits option.splits
      dest: ReadAll_frame)

lemma absent_node_sends:
  assumes "NodeID ric \<notin> dom aliveNodes" "url_error env (''http://'' @ path) = None"
  shows "\<exists>k. requests (snd (ExpBackoffRequest env
             (node_request env aliveNodes ric path data) w1)) =
           requests w1 @ replicate (Suc k)
             \<lparr>Method = ''POST'', URL = ''http://'' @ path, Payload = Some data\<rparr>"
proof -
  let ?f = "node_request env aliveNodes ric path data"
  have "?f () = Inr \<lparr>Method = ''POST'', URL = ''http://'' @ path, Payload = Some data\<rparr>"
    using assms by (rule node_request_absent)
  moreover have "ExpBackoffRequest env ?f w1 =
      (fst (ExpBackoffRequest env ?f w1), snd (ExpBackoffRequest env ?f w1))" by simp
  ultimately show ?thesis by (rule ExpBackoffRequest_sends)
qed

section \<open>The retrying executor\<close>

text \<open>
  Whenever the builder succeeds and the transport fails on every call, the executor
  sends the request five times, sleeps after each of the five failures, and returns
  the error of the fifth. The durations are whole seconds: \<^verbatim>\<open>time.Duration(backoff)\<close>
  drops the half second before the multiplication by \<^verbatim>\<open>time.Second\<close>.
\<close>

text \<open>
  For every attempt the loop reaches, the duration handed to \<^verbatim>\<open>time.Sleep\<close> is within
  the int64 of \<^verbatim>\<open>time.Duration\<close>, so the multiplication never wraps.
\<close>

lemma sleep_fits_int64:
  assumes "attempt < 6"
  shows "0 \<le> Duration (backoff attempt) * Second \<and>
         Duration (backoff attempt) * Second < 2 ^ 63"
proof -
  from assms have "attempt \<in> {0, 1, 2, 3, 4, 5}" by auto
  then show ?thesis
    by (auto simp: backoff_def Duration_def Second_def)
qed


text \<open>
  Claim C1 says that after failed attempt \<open>k\<close> the executor sleeps \<open>(2^k - 1) / 2\<close>
  seconds, that is 0.5s, 1.5s, 3.5s and 7.5s, and does not sleep after the fifth
  attempt. Run against a control plane that refuses every connection: the five attempts
  and the returned last error are as claimed, and \<open>backoff\<close> does compute those
  fractions, but the five sleeps are of 0s, 1s, 3s, 7s and 15s, the last of them after
  the fifth attempt.
\<close>

theorem retry_sleeps_truncated:
  "ExpBackoffRequest unreachable (nodes_request unreachable) world0 =
     (Inl (External ''connection refused, call 5''),
      \<lparr>requests = replicate 5 nodes_get,
       sleeps = [0, 1000000000, 3000000000, 7000000000, 15000000000],
       bodies = [], closes = []\<rparr>) \<and>
   map backoff [1, 2, 3, 4, 5] = [1 / 2, 3 / 2, 7 / 2, 15 / 2, 31 / 2]"
  by (simp add: run_defs numeral_eq_Suc)

section \<open>CreateIterator\<close>

lemma FieldDimensions_resolver_error:
  assumes "sources_MarshalBinary env sources = Inr sourceBinary"
    and "marshal_FieldDimensionsCommand env
           \<lparr>fdc_ShardID = ShardID ric, fdc_Sources = sourceBinary\<rparr> = Inr fdcBinary"
    and "AliveNodesMap env w = (Inl e, w1)"
  shows "FieldDimensions env ric sources w = ((None, None, Some e), w1)"
  using assms by (simp add: FieldDimensions_def)

lemma ExpandSources_resolver_error:
  assumes "sources_MarshalBinary env sources = Inr sourceBinary"
    and "marshal_ExpandSourcesCommand env
           \<lparr>esc_ShardID = ShardID ric, esc_Sources = sourceBinary\<rparr> = Inr cmdBinary"
    and "AliveNodesMap env w = (Inl e, w1)"
  shows "ExpandSources env ric sources w = (Inl e, w1)"
  using assms by (simp add: ExpandSources_def)

lemma CreateIterator_resolver_error:
  assumes "AliveNodesMap env w = (Inl e, w1)"
    and "opt_MarshalBinary env opt = Inr optBinary"
    and "marshal_ReadShardCommand env
           \<lparr>rsc_ShardID = ShardID ric, rsc_IteratorOptions = optBinary\<rparr> = Inr data"
    and "url_error env ''http:///read'' = None"
  shows "\<exists>k. requests (snd (CreateIterator env ric opt w)) =
            requests w1 @ replicate (Suc k)
              \<lparr>Method = ''POST'', URL = ''http:///read'', Payload = Some data\<rparr>"
proof -
  have "NodeID ric \<notin> dom (Map.empty :: 64 word \<rightharpoonup> NodesList)" by simp
  moreover have "url_error env (''http://'' @ ''/read'') = None" using assms(4) by simp
  ultimately show ?thesis
    using absent_node_sends [of ric Map.empty env "''/read''" data w1]
    unfolding CreateIterator_requests [OF assms(1,2,3)] by simp
qed

text \<open>
  Claim C2 says that an error of the directory resolution makes each operation return
  an error instead of going on. With the control plane down, \<^verbatim>\<open>FieldDimensions\<close> and
  \<^verbatim>\<open>ExpandSources\<close> do return the resolver's error, having sent nothing more.
  \<^verbatim>\<open>CreateIterator\<close> does not: the resolver's error is overwritten, the nil map gives a
  zero-value node, five POSTs to \<^verbatim>\<open>http:///read\<close> follow, and the error returned is the
  transport's about that URL.
\<close>

theorem resolver_error_overwritten:
  "fst (AliveNodesMap directory_down world0) = Inl (External ''connection refused'') \<and>
   fst (CreateIterator directory_down (shard5_on 1) [] world0) =
     Inl (External ''http: no Host in request URL'') \<and>
   requests (snd (CreateIterator directory_down (shard5_on 1) [] world0)) =
     replicate 5 nodes_get @ replicate 5 (post ''http:///read'') \<and>
   FieldDimensions directory_down (shard5_on 1) [] world0 =
     ((None, None, Some (External ''connection refused'')),
      snd (AliveNodesMap directory_down world0)) \<and>
   ExpandSources directory_down (shard5_on 1) [] world0 =
     (Inl (External ''connection refused''), snd (AliveNodesMap directory_down world0))"
  by (simp add: run_defs CreateIterator_def FieldDimensions_def ExpandSources_def
      numeral_eq_Suc)

text \<open>No path through \<^verbatim>\<open>CreateIterator\<close> closes a body.\<close>

lemma CreateIterator_never_closes: "closes (snd (CreateIterator env ric opt w)) = closes w"
proof -
  obtain r0 w1 where a: "AliveNodesMap env w = (r0, w1)" by (cases "AliveNodesMap env w")
  have c1: "closes w1 = closes w" using a by (rule AliveNodesMap_closes)
  show ?thesis
    using a c1
    by (auto simp: CreateIterator_def Let_def split: prod.splits sum.splits option.splits
        dest!: ExpBackoffRequest_closes ReadAll_frame)
qed

text \<open>
  Claim C3 says that when the envelope declares a value kind without an iterator
  variant, the operation fails with an unsupported-type error and the response body is
  closed before the error is returned. For an envelope declaring kind 9 the error is
  the one claimed, but the body of the response (body 1; body 0 is the directory's)
  has not been closed when the operation returns.
\<close>

theorem unsupported_type_leaves_body_open:
  "CreateIterator (cluster [node1] ([9, 10, 20, 30], None)) (shard5_on 1) [] world0 =
     (Inl (ErrorString ''Unsupported iterator type: 9''),
      \<lparr>requests = [nodes_get, post ''http://10.0.0.1:9000/read''],
       sleeps = [],
       bodies = [\<lparr>unread = [], read_err = None\<rparr>, \<lparr>unread = [], read_err = None\<rparr>],
       closes = []\<rparr>)"
  by (simp add: run_defs CreateIterator_def)

text \<open>
  Whenever \<^verbatim>\<open>CreateIterator\<close> returns an iterator, the body its decoder is bound to has
  been read to the end.
\<close>

lemma CreateIterator_drains_body:
  assumes "CreateIterator env ric opt w = (Inr it, w')"
  shows "PointDecoder (iterator_fields it) < length (bodies w') \<and>
         unread (bodies w' ! PointDecoder (iterator_fields it)) = [] \<and>
         CloseReader (iterator_fields it) = PointDecoder (iterator_fields it)"
  using assms
  by (auto simp: CreateIterator_def Let_def split: prod.splits sum.splits option.splits if_splits
      dest!: ReadAll_drains)

text \<open>
  Claim C5 says that a successful \<^verbatim>\<open>CreateIterator\<close> consumes only the envelope at the start
  of the body and leaves the rest of the stream for the iterator's decoder. For a
  response of the envelope byte 1 (INTEGER) followed by the point bytes 10, 20, 30, the
  executor hands over the body unread, and the operation returns the integer iterator
  bound to it with nothing left to read: \<^verbatim>\<open>ioutil.ReadAll\<close> has taken the points too.
\<close>

theorem whole_body_read_before_decoder:
  "ExpBackoffRequest (cluster [node1] ([1, 10, 20, 30], None))
     (node_request (cluster [node1] ([1, 10, 20, 30], None)) (assign_nodes [node1] Map.empty)
        (shard5_on 1) ''/read'' []) looked_up =
     (Inr \<lparr>Body = 1\<rparr>,
      looked_up\<lparr>requests := [nodes_get, post ''http://10.0.0.1:9000/read''],
                 bodies := [\<lparr>unread = [], read_err = None\<rparr>,
                            \<lparr>unread = [1, 10, 20, 30], read_err = None\<rparr>]\<rparr>) \<and>
   CreateIterator (cluster [node1] ([1, 10, 20, 30], None)) (shard5_on 1) [] world0 =
     (Inr (RemoteIntegerIterator \<lparr>PointDecoder = 1, Closed = False, CloseReader = 1\<rparr>),
      looked_up\<lparr>requests := [nodes_get, post ''http://10.0.0.1:9000/read''],
                 bodies := [\<lparr>unread = [], read_err = None\<rparr>,
                            \<lparr>unread = [], read_err = None\<rparr>]\<rparr>)"
  by (simp add: run_defs CreateIterator_def)

section \<open>A target node that the directory does not hold\<close>
















end
